theory Spec2Isabelle
  imports Main
begin

section \<open>JavaScript values and objects\<close>

text \<open>
  The values that travel through the controller and the data-access layer: request-body
  values, path parameters, ids and database columns. \<open>JNum\<close> is an integer-valued number.
  \<open>JOther k\<close> is any other value a parsed body or a row can carry (a number with a
  fraction, an array, an object), kept opaque: \<open>k\<close> names the value, one name per number
  and one per allocated array or object, so that strict equality (\<open>===\<close>, \<open>!==\<close>) is HOL
  equality on \<open>jsval\<close>. \<open>NaN\<close>, which is not equal to itself and which neither JSON nor a
  column carries, is not a value of the model.
\<close>

datatype jsval = JUndefined | JNull | JBool bool | JNum int | JStr string | JOther nat

text \<open>
  A plain object is the list of its own enumerable entries, in the order of
  \<open>Object.entries\<close>. Reading a property that is absent yields \<open>undefined\<close>; an assignment
  overwrites the property in place or appends it.
\<close>

type_synonym obj = "(string \<times> jsval) list"

definition object_keys :: "obj \<Rightarrow> string list" where
  "object_keys targetObj = map fst targetObj"

definition get_prop :: "obj \<Rightarrow> string \<Rightarrow> jsval" where
  "get_prop targetObj k = (case map_of targetObj k of None \<Rightarrow> JUndefined | Some v \<Rightarrow> v)"

definition set_prop :: "obj \<Rightarrow> string \<Rightarrow> jsval \<Rightarrow> obj" where
  "set_prop targetObj k v =
     (if k \<in> set (object_keys targetObj)
      then map (\<lambda>(k', v'). if k' = k then (k', v) else (k', v')) targetObj
      else targetObj @ [(k, v)])"

subsection \<open>String conversion in template literals\<close>

definition digit_char :: "nat \<Rightarrow> char" where
  "digit_char d =
     (if d = 0 then CHR ''0'' else if d = 1 then CHR ''1'' else if d = 2 then CHR ''2''
      else if d = 3 then CHR ''3'' else if d = 4 then CHR ''4'' else if d = 5 then CHR ''5''
      else if d = 6 then CHR ''6'' else if d = 7 then CHR ''7'' else if d = 8 then CHR ''8''
      else CHR ''9'')"

fun string_of_nat :: "nat \<Rightarrow> string" where
  "string_of_nat n =
     (if n < 10 then [digit_char n] else string_of_nat (n div 10) @ [digit_char (n mod 10)])"

declare string_of_nat.simps [simp del]

definition string_of_int :: "int \<Rightarrow> string" where
  "string_of_int i = (if i < 0 then ''-'' @ string_of_nat (nat (- i)) else string_of_nat (nat i))"

text \<open>
  \<open>`${value}`\<close>: the string a template literal inserts for a value. The text is fixed here
  for \<open>undefined\<close>, \<open>null\<close>, the booleans, the strings and the safe integers (up to
  \<open>2\<^sup>5\<^sup>3 - 1\<close> in absolute value), which print in plain decimal. For every other value
  (a larger integer, which prints rounded or in exponent notation, a number with a
  fraction, an array, an object) the text is what the engine's conversion \<open>ToString\<close>
  gives; the model takes this conversion as the parameter \<open>other\<close> and fixes nothing about
  it. The conversion is taken to return. An object whose conversion throws (its own
  \<open>toString\<close> property is not callable) makes the template literal throw, so that no
  text comes to exist; such an object is not a value of the model.
\<close>

fun to_string :: "(jsval \<Rightarrow> string) \<Rightarrow> jsval \<Rightarrow> string" where
  "to_string other JUndefined = ''undefined''"
| "to_string other JNull = ''null''"
| "to_string other (JBool b) = (if b then ''true'' else ''false'')"
| "to_string other (JNum i) =
     (if \<bar>i\<bar> \<le> 9007199254740991 then string_of_int i else other (JNum i))"
| "to_string other (JStr s) = s"
| "to_string other (JOther k) = other (JOther k)"

section \<open>Collaborators: database driver, authentication model, response helper\<close>

text \<open>
  \<open>Database.executeQuery(query, params)\<close> receives the query text and, optionally, the
  bound parameters: an array for \<open>?\<close> placeholders, an object for \<open>SET ?\<close>.
\<close>

datatype bound = NoParams | ParamList "jsval list" | ParamObj obj

type_synonym db_call = "string \<times> bound"

text \<open>
  What the driver resolves to: the rows of a select, or the result packet of a
  mutating statement with its generated id and its affected-row count.
\<close>

datatype db_result = Rows "obj list" | Packet nat nat

text \<open>\<open>result[0]\<close>: the first row of an array, \<open>undefined\<close> (here \<open>None\<close>) otherwise.\<close>

fun result_index0 :: "db_result \<Rightarrow> obj option" where
  "result_index0 (Rows []) = None"
| "result_index0 (Rows (r # rs)) = Some r"
| "result_index0 (Packet i a) = None"

text \<open>\<open>result.insertId\<close> and \<open>result.affectedRows\<close>; an array of rows has neither.\<close>

fun insertId :: "db_result \<Rightarrow> jsval" where
  "insertId (Packet i a) = JNum (int i)"
| "insertId (Rows rs) = JUndefined"

fun affectedRows :: "db_result \<Rightarrow> jsval" where
  "affectedRows (Packet i a) = JNum (int a)"
| "affectedRows (Rows rs) = JUndefined"

text \<open>
  The truth value a condition takes for a value. The opaque values are truthy: a number
  with a fraction is not zero, and arrays and objects are always truthy.
\<close>

fun truthy :: "jsval \<Rightarrow> bool" where
  "truthy JUndefined = False"
| "truthy JNull = False"
| "truthy (JBool b) = b"
| "truthy (JNum i) = (i \<noteq> 0)"
| "truthy (JStr s) = (s \<noteq> [])"
| "truthy (JOther k) = True"

text \<open>
  A thrown error, as far as the catch blocks read it: \<open>error.status\<close>, \<open>error.message\<close>
  and \<open>error.response\<close>, each possibly undefined (\<open>None\<close>). What is thrown is an object,
  so reading these properties does not throw in turn.
\<close>

record js_error =
  err_status :: "nat option"
  err_message :: "string option"
  err_response :: "obj option"

text \<open>
  The environment of one request: the behaviour of the collaborators and the engine's
  string conversion of the values \<open>to_string\<close> leaves open. The driver's answer may depend
  on the statements already issued in this request (the log), so a select after an update
  may see the update. A collaborator either resolves (\<open>Inr\<close>) or throws (\<open>Inl\<close>).
\<close>

record world =
  executeQuery :: "db_call list \<Rightarrow> string \<Rightarrow> bound \<Rightarrow> js_error + db_result"
  findUserByAttribute :: "string \<Rightarrow> jsval \<Rightarrow> js_error + obj option"
  ToString :: "jsval \<Rightarrow> string"

text \<open>
  The arguments of one call of \<open>sendResponse(res, statusCode, message, data, error)\<close>; an
  argument left out is undefined (\<open>None\<close>). The helper records the call and returns
  normally.
\<close>

datatype jsdata = DataResult db_result | DataObj obj | DataEmptyArray

datatype err_detail = ErrResponse obj | ErrObject js_error

record response =
  statusCode :: nat
  message :: string
  payload :: "jsdata option"
  errorDetail :: "err_detail option"

text \<open>
  The effects of a request: the responses emitted through \<open>sendResponse\<close> and the
  statements handed to the driver, both in order.
\<close>

record st =
  responses :: "response list"
  db_log :: "db_call list"

definition init :: st where
  "init = \<lparr>responses = [], db_log = []\<rparr>"

definition sendResponse ::
  "nat \<Rightarrow> string \<Rightarrow> jsdata option \<Rightarrow> err_detail option \<Rightarrow> st \<Rightarrow> st" where
  "sendResponse code msg dat err s =
     s\<lparr>responses := responses s @
        [\<lparr>statusCode = code, message = msg, payload = dat, errorDetail = err\<rparr>]\<rparr>"

definition Database_executeQuery ::
  "world \<Rightarrow> string \<Rightarrow> bound \<Rightarrow> st \<Rightarrow> (js_error + db_result) \<times> st" where
  "Database_executeQuery w query params s =
     (executeQuery w (db_log s) query params, s\<lparr>db_log := db_log s @ [(query, params)]\<rparr>)"

section \<open>Data-access layer: class UserModel\<close>


definition UserModel_getBlogById ::
  "world \<Rightarrow> jsval \<Rightarrow> st \<Rightarrow> (js_error + obj option) \<times> st" where
  "UserModel_getBlogById w blogId s =
     (case Database_executeQuery w ''SELECT * FROM blogs WHERE id = ?'' (ParamList [blogId]) s of
        (Inl error, s') \<Rightarrow> (Inl error, s')
      | (Inr result, s') \<Rightarrow> (Inr (result_index0 result), s'))"

definition UserModel_createBlog ::
  "world \<Rightarrow> jsval \<Rightarrow> jsval \<Rightarrow> jsval \<Rightarrow> st \<Rightarrow> (js_error + db_result) \<times> st" where
  "UserModel_createBlog w title description userId s =
     Database_executeQuery w ''INSERT INTO blogs SET ?''
       (ParamObj [(''userId'', userId), (''title'', title), (''description'', description)]) s"

text \<open>
  The \<open>forEach\<close> of \<open>updateBlog\<close> over \<open>Object.entries(targetObj)\<close>: \<open>n\<close> is
  \<open>Object.keys(targetObj).length\<close>, \<open>index\<close> the position of the entry, \<open>query\<close> the text
  built so far, \<open>other\<close> the engine's conversion handed on to \<open>to_string\<close>. The last entry
  closes the statement with the id predicate.
\<close>

abbreviation apostrophe :: string where
  "apostrophe \<equiv> [CHR 0x27]"

fun updateBlog_forEach ::
  "(jsval \<Rightarrow> string) \<Rightarrow> nat \<Rightarrow> nat \<Rightarrow> obj \<Rightarrow> string \<Rightarrow> string" where
  "updateBlog_forEach other n index [] query = query"
| "updateBlog_forEach other n index ((key, value) # rest) query =
     updateBlog_forEach other n (index + 1) rest
       (if int index = int n - 1
        then query @ key @ '' = '' @ apostrophe @ to_string other value @ apostrophe
               @ '' WHERE id = ?''
        else query @ key @ '' = '' @ apostrophe @ to_string other value @ apostrophe @ '', '')"

definition updateBlog_query :: "(jsval \<Rightarrow> string) \<Rightarrow> obj \<Rightarrow> string" where
  "updateBlog_query other targetObj =
     updateBlog_forEach other (length (object_keys targetObj)) 0 targetObj ''UPDATE blogs SET ''"

definition UserModel_updateBlog ::
  "world \<Rightarrow> obj \<Rightarrow> jsval \<Rightarrow> st \<Rightarrow> (js_error + db_result) \<times> st" where
  "UserModel_updateBlog w targetObj blogId s =
     Database_executeQuery w (updateBlog_query (ToString w) targetObj) (ParamList [blogId]) s"

definition UserModel_deleteBlog ::
  "world \<Rightarrow> jsval \<Rightarrow> st \<Rightarrow> (js_error + db_result) \<times> st" where
  "UserModel_deleteBlog w blogId s =
     Database_executeQuery w ''DELETE FROM blogs WHERE id = ?'' (ParamList [blogId]) s"

text \<open>
  The class declares the five static methods above and no other. The controller's call
  \<open>UserModel.updateUser(requestBody, userId)\<close> therefore reads an undefined property and
  calling it throws a TypeError, before any statement reaches the driver.
\<close>

definition TypeError :: "string \<Rightarrow> js_error" where
  "TypeError msg = \<lparr>err_status = None, err_message = Some msg, err_response = None\<rparr>"

definition UserModel_updateUser ::
  "world \<Rightarrow> obj \<Rightarrow> jsval \<Rightarrow> st \<Rightarrow> (js_error + db_result) \<times> st" where
  "UserModel_updateUser w targetObj userId s =
     (Inl (TypeError ''UserModel.updateUser is not a function''), s)"

section \<open>Helpers of the controller\<close>

text \<open>
  The values imported from \<open>helpers/constants.js\<close>: the numeric codes of \<open>STATUS_CODES\<close>
  and \<open>Object.values\<close> of the three field tables. The file is not part of the sources at
  hand, so the controller takes them as a parameter.
\<close>

record constants =
  OK :: nat
  SUCCESSFULLY_CREATED :: nat
  BAD_REQUEST :: nat
  UNAUTHORIZED :: nat
  INTERNAL_SERVER_ERROR :: nat
  blogCreationRequiredFields :: "string list"
  possibleBlogUpdateFields :: "string list"
  userUpdateFields :: "string list"

text \<open>
  Modelled from the spec: \<open>isAvailable\<close> of \<open>helpers/utils.js\<close>, which is not part of the
  sources at hand. The spec gives it as the field-presence validator
  \<open>isAvailable(body, requiredFieldNames, allRequired: boolean) \<rightarrow> boolean\<close>: with
  \<open>allRequired\<close> (the default) every listed name must be a key of the body, without it
  at least one.
\<close>

definition isAvailable :: "obj \<Rightarrow> string list \<Rightarrow> bool \<Rightarrow> bool" where
  "isAvailable targetObj requiredFields allRequired =
     (if allRequired
      then list_all (\<lambda>field. field \<in> set (object_keys targetObj)) requiredFields
      else list_ex (\<lambda>field. field \<in> set (object_keys targetObj)) requiredFields)"

text \<open>What a handler reads of \<open>req\<close> and of \<open>res\<close>.\<close>

record request =
  body :: obj
  params_id :: jsval

record res =
  locals_user_id :: jsval

text \<open>
  The catch block shared by all handlers:
  \<open>sendResponse(res, error.status || INTERNAL_SERVER_ERROR,
  error.message || 'Internal Server Error', [], error.response || error)\<close>.
\<close>

definition catch_block :: "constants \<Rightarrow> js_error \<Rightarrow> st \<Rightarrow> st" where
  "catch_block c error s =
     sendResponse
       (case err_status error of
          None \<Rightarrow> INTERNAL_SERVER_ERROR c
        | Some n \<Rightarrow> if n \<noteq> 0 then n else INTERNAL_SERVER_ERROR c)
       (case err_message error of
          None \<Rightarrow> ''Internal Server Error''
        | Some m \<Rightarrow> if m \<noteq> [] then m else ''Internal Server Error'')
       (Some DataEmptyArray)
       (Some (case err_response error of None \<Rightarrow> ErrObject error | Some r \<Rightarrow> ErrResponse r))
       s"

section \<open>Request-handling layer: class UserController\<close>


definition createBlog :: "constants \<Rightarrow> world \<Rightarrow> request \<Rightarrow> res \<Rightarrow> st \<Rightarrow> st" where
  "createBlog c w req rs s =
     (let requestBody = set_prop (body req) ''userId'' (locals_user_id rs);
          allFieldsArePresent = isAvailable requestBody (blogCreationRequiredFields c) True
      in if \<not> allFieldsArePresent
         then sendResponse (BAD_REQUEST c) ''Some fields are missing'' None None s
         else
           let title = get_prop requestBody ''title'';
               description = get_prop requestBody ''description'';
               userId = get_prop requestBody ''userId''
           in case UserModel_createBlog w title description userId s of
                (Inr blogCreateResult, s') \<Rightarrow>
                  sendResponse (SUCCESSFULLY_CREATED c) ''Blog created successfully''
                    (Some (DataObj [(''id'', insertId blogCreateResult), (''title'', title),
                                    (''description'', description), (''userId'', userId)]))
                    None s'
              | (Inl error, s') \<Rightarrow> catch_block c error s')"

definition getBlogById :: "constants \<Rightarrow> world \<Rightarrow> request \<Rightarrow> res \<Rightarrow> st \<Rightarrow> st" where
  "getBlogById c w req rs s =
     (let blogId = params_id req
      in case UserModel_getBlogById w blogId s of
           (Inr None, s') \<Rightarrow>
             sendResponse (OK c) (''Blog with id '' @ to_string (ToString w) blogId @ '' not found'') None None s'
         | (Inr (Some blog), s') \<Rightarrow>
             sendResponse (OK c) (''Blog with id '' @ to_string (ToString w) blogId @ '' fetched successfully'')
               (Some (DataObj blog)) None s'
         | (Inl error, s') \<Rightarrow> catch_block c error s')"

definition updateBlog :: "constants \<Rightarrow> world \<Rightarrow> request \<Rightarrow> res \<Rightarrow> st \<Rightarrow> st" where
  "updateBlog c w req rs s =
     (let requestBody = body req;
          fieldsToBeUpdatedExist = isAvailable requestBody (possibleBlogUpdateFields c) False
      in if \<not> fieldsToBeUpdatedExist
         then sendResponse (BAD_REQUEST c) ''Fields to be updated does not exist'' None None s
         else
           let blogId = params_id req
           in case UserModel_getBlogById w blogId s of
                (Inl error, s') \<Rightarrow> catch_block c error s'
              | (Inr None, s') \<Rightarrow>
                  sendResponse (OK c) (''Blog with id '' @ to_string (ToString w) blogId @ '' not found'')
                    None None s'
              | (Inr (Some blogToBeUpdated), s') \<Rightarrow>
                  if get_prop blogToBeUpdated ''userId'' \<noteq> locals_user_id rs
                  then sendResponse (UNAUTHORIZED c) ''You are not authorized'' None None s'
                  else
                    (case UserModel_updateBlog w requestBody blogId s' of
                       (Inl error, s'') \<Rightarrow> catch_block c error s''
                     | (Inr updateBlogResult, s'') \<Rightarrow>
                         if truthy (affectedRows updateBlogResult)
                         then sendResponse (OK c)
                                (''Blog with id '' @ to_string (ToString w) blogId @ '' updated successfully'')
                                None None s''
                         else sendResponse (BAD_REQUEST c)
                                (''Blog with id '' @ to_string (ToString w) blogId @ '' could not be updated'')
                                None None s''))"

definition deleteBlog :: "constants \<Rightarrow> world \<Rightarrow> request \<Rightarrow> res \<Rightarrow> st \<Rightarrow> st" where
  "deleteBlog c w req rs s =
     (let blogId = params_id req
      in case UserModel_getBlogById w blogId s of
           (Inl error, s') \<Rightarrow> catch_block c error s'
         | (Inr None, s') \<Rightarrow>
             sendResponse (OK c) (''Blog with id '' @ to_string (ToString w) blogId @ '' not found'')
               None None s'
         | (Inr (Some blogToBeDeleted), s') \<Rightarrow>
             if get_prop blogToBeDeleted ''userId'' \<noteq> locals_user_id rs
             then sendResponse (UNAUTHORIZED c) ''You are not authorized'' None None s'
             else
               (case UserModel_deleteBlog w blogId s' of
                  (Inl error, s'') \<Rightarrow> catch_block c error s''
                | (Inr deleteBlogResult, s'') \<Rightarrow>
                    if truthy (affectedRows deleteBlogResult)
                    then sendResponse (OK c)
                           (''Blog with id '' @ to_string (ToString w) blogId @ '' deleted successfully'')
                           None None s''
                    else sendResponse (BAD_REQUEST c)
                           (''Blog with id '' @ to_string (ToString w) blogId @ '' could not be deleted'')
                           None None s''))"

definition getUserById :: "constants \<Rightarrow> world \<Rightarrow> request \<Rightarrow> res \<Rightarrow> st \<Rightarrow> st" where
  "getUserById c w req rs s =
     (let userId = params_id req
      in case findUserByAttribute w ''id'' userId of
           (Inl error) \<Rightarrow> catch_block c error s
         | (Inr None) \<Rightarrow>
             sendResponse (OK c) (''User with id '' @ to_string (ToString w) userId @ '' does not exist'')
               None None s
         | (Inr (Some user)) \<Rightarrow>
             if get_prop user ''id'' \<noteq> locals_user_id rs
             then sendResponse (UNAUTHORIZED c) ''You are not authorized'' None None s
             else sendResponse (OK c)
                    (''User with id '' @ to_string (ToString w) userId @ '' fetched successfully'')
                    (Some (DataObj [(''id'', get_prop user ''id''),
                                    (''username'', get_prop user ''username'')]))
                    None s)"

definition updateUser :: "constants \<Rightarrow> world \<Rightarrow> request \<Rightarrow> res \<Rightarrow> st \<Rightarrow> st" where
  "updateUser c w req rs s =
     (let requestBody = body req;
          fieldsToBeUpdatedExist = isAvailable requestBody (userUpdateFields c) False
      in if \<not> fieldsToBeUpdatedExist
         then sendResponse (BAD_REQUEST c) ''Fields to be updated does not exist'' None None s
         else
           let userId = params_id req
           in case findUserByAttribute w ''id'' userId of
                (Inl error) \<Rightarrow> catch_block c error s
              | (Inr None) \<Rightarrow>
                  sendResponse (OK c) (''User with id '' @ to_string (ToString w) userId @ '' does not exist'')
                    None None s
              | (Inr (Some user)) \<Rightarrow>
                  if get_prop user ''id'' \<noteq> locals_user_id rs
                  then sendResponse (UNAUTHORIZED c) ''You are not authorized'' None None s
                  else
                    (case UserModel_updateUser w requestBody userId s of
                       (Inl error, s') \<Rightarrow> catch_block c error s'
                     | (Inr updateUserResult, s') \<Rightarrow>
                         if truthy (affectedRows updateUserResult)
                         then sendResponse (OK c)
                                (''User with id '' @ to_string (ToString w) userId @ '' updated successfully'')
                                None None s'
                         else sendResponse (BAD_REQUEST c)
                                (''User with id '' @ to_string (ToString w) userId @ '' could not be updated'')
                                None None s'))"

subsection \<open>Requests without a parsed body or without an identity\<close>

text \<open>
  The handlers above take a request whose body is an object and a response target whose
  \<open>locals.user\<close> carries the caller's id, as the upstream middleware leaves them. As a
  request arrives, \<open>req.body\<close> is undefined when no body parser ran and \<open>res.locals.user\<close> is
  undefined when no authentication ran.
\<close>

record raw_request =
  raw_body :: "obj option"
  raw_params_id :: jsval

record raw_res =
  raw_locals_user :: "obj option"

text \<open>
  How a call of an async handler ends: it returns, or it throws outside its \<open>try\<close> and the
  promise rejects. Either way the effects so far stay.
\<close>

datatype outcome = Returned st | Rejected st

text \<open>
  \<open>createBlog\<close> on a request as it arrives. Its second statement,
  \<open>requestBody.userId = res.locals.user.id\<close>, stands before the \<open>try\<close>: reading \<open>id\<close> of an
  undefined \<open>user\<close> and setting \<open>userId\<close> on an undefined body throw a TypeError that
  nothing catches, so the handler rejects before any call of \<open>sendResponse\<close>. With both
  present the statement is the assignment with which \<open>createBlog\<close> above begins.
\<close>

definition createBlog_entry ::
  "constants \<Rightarrow> world \<Rightarrow> raw_request \<Rightarrow> raw_res \<Rightarrow> st \<Rightarrow> outcome" where
  "createBlog_entry c w req rs s =
     (case raw_locals_user rs of
        None \<Rightarrow> Rejected s
      | Some user \<Rightarrow>
          (case raw_body req of
             None \<Rightarrow> Rejected s
           | Some requestBody \<Rightarrow>
               Returned (createBlog c w \<lparr>body = requestBody, params_id = raw_params_id req\<rparr>
                           \<lparr>locals_user_id = get_prop user ''id''\<rparr> s)))"

section \<open>Sample values for concrete evaluation\<close>

text \<open>
  Concrete constants and collaborators at which the theorems below are evaluated. The
  status codes are the usual HTTP numbers; the field tables follow the data model of the
  blog (title, description, owning user) and of the user (username).
\<close>

definition sample_constants :: constants where
  "sample_constants =
     \<lparr>OK = 200, SUCCESSFULLY_CREATED = 201, BAD_REQUEST = 400, UNAUTHORIZED = 401,
      INTERNAL_SERVER_ERROR = 500,
      blogCreationRequiredFields = [''title'', ''description'', ''userId''],
      possibleBlogUpdateFields = [''title'', ''description''],
      userUpdateFields = [''username'']\<rparr>"

definition blog5 :: obj where
  "blog5 = [(''id'', JNum 5), (''title'', JStr ''Old''), (''description'', JStr ''Text''),
            (''userId'', JNum 7)]"

definition user7 :: obj where
  "user7 = [(''id'', JNum 7), (''username'', JStr ''ann''), (''password'', JStr ''hash'')]"

text \<open>
  A store holding blog 5 of user 7 and user 7: a select by id finds the blog, every other
  statement resolves to the given result. The sample requests carry strings and small
  integers only, so the conversion of other values is never consulted.
\<close>

definition sample_world :: "db_result \<Rightarrow> world" where
  "sample_world r =
     \<lparr>executeQuery = (\<lambda>log query params.
        if query = ''SELECT * FROM blogs WHERE id = ?'' then Inr (Rows [blog5]) else Inr r),
      findUserByAttribute = (\<lambda>attr v. Inr (Some user7)),
      ToString = (\<lambda>v. ''[object Object]'')\<rparr>"

text \<open>A store with no blog and no user.\<close>

definition empty_world :: world where
  "empty_world =
     \<lparr>executeQuery = (\<lambda>log query params. Inr (Rows [])),
      findUserByAttribute = (\<lambda>attr v. Inr None),
      ToString = (\<lambda>v. ''[object Object]'')\<rparr>"

text \<open>The text \<open>key = 'value'\<close> of one column assignment.\<close>

abbreviation assignment_text :: "(jsval \<Rightarrow> string) \<Rightarrow> string \<Rightarrow> jsval \<Rightarrow> string" where
  "assignment_text other key value \<equiv>
     key @ '' = '' @ apostrophe @ to_string other value @ apostrophe"

section \<open>The update statement of the data-access layer\<close>

text \<open>
  The loop over a non-empty list of entries, started at the position that makes the last
  entry the one with index \<open>n - 1\<close>: every entry but the last is followed by a comma, the
  last by the id predicate.
\<close>

lemma updateBlog_forEach_closed:
  "rest \<noteq> [] \<Longrightarrow> index + length rest = n \<Longrightarrow>
   updateBlog_forEach other n index rest query =
     query @ concat (map (\<lambda>(key, value). assignment_text other key value @ '', '') (butlast rest))
       @ (case last rest of (key, value) \<Rightarrow> assignment_text other key value) @ '' WHERE id = ?''"
proof (induction rest arbitrary: index query)
  case Nil
  then show ?case by simp
next
  case (Cons e rest)
  obtain k v where e: "e = (k, v)" by (cases e)
  show ?case
  proof (cases "rest = []")
    case True
    with Cons.prems e show ?thesis by auto
  next
    case False
    with Cons.prems have ne: "int index \<noteq> int n - 1" and len: "(index + 1) + length rest = n"
      by auto
    from Cons.IH [OF False len] ne e False show ?thesis by simp
  qed
qed

text \<open>
  C8. For every non-empty field object handed to \<open>UserModel.updateBlog\<close>, the statement
  issued is \<open>UPDATE blogs SET\<close> followed by the assignments \<open>key = 'value'\<close> of all entries,
  name and value concatenated into the text and separated by commas, followed by
  \<open>WHERE id = ?\<close>; the bound parameters are exactly \<open>[blogId]\<close>. The value stands in the
  text as the template literal converts it, whatever the engine's conversion of the
  values \<open>to_string\<close> leaves open.
\<close>

theorem C8_updateBlog_concatenates:
  "targetObj \<noteq> [] \<Longrightarrow>
   snd (UserModel_updateBlog w targetObj blogId s) =
     s\<lparr>db_log := db_log s @
        [(''UPDATE blogs SET ''
            @ concat (map (\<lambda>(key, value). assignment_text (ToString w) key value @ '', '') (butlast targetObj))
            @ (case last targetObj of (key, value) \<Rightarrow> assignment_text (ToString w) key value)
            @ '' WHERE id = ?'',
          ParamList [blogId])]\<rparr>"
  by (simp add: UserModel_updateBlog_def Database_executeQuery_def updateBlog_query_def
      object_keys_def updateBlog_forEach_closed)

theorem C8_updateBlog_concatenates_witness:
  "[(''title'', JStr ''T''), (''views'', JNum 12), (''tags'', JOther 0)] \<noteq> [] \<and>
   snd (UserModel_updateBlog empty_world
          [(''title'', JStr ''T''), (''views'', JNum 12), (''tags'', JOther 0)]
          (JStr ''5'') init) =
     \<lparr>responses = [],
      db_log = [(''UPDATE blogs SET title = 'T', views = '12', tags = '[object Object]' WHERE id = ?'',
                 ParamList [JStr ''5''])]\<rparr>"
  using C8_updateBlog_concatenates
    [of "[(''title'', JStr ''T''), (''views'', JNum 12), (''tags'', JOther 0)]" empty_world
        "JStr ''5''" init]
  by (simp add: init_def empty_world_def string_of_int_def string_of_nat.simps digit_char_def)

text \<open>
  C9. With an empty field object the loop body never runs, so the id predicate is never
  appended: the statement issued is exactly \<open>UPDATE blogs SET \<close>, with no assignment and
  no \<open>WHERE\<close>, still with the bound parameters \<open>[blogId]\<close>.
\<close>

theorem C9_updateBlog_empty:
  "updateBlog_query other [] = ''UPDATE blogs SET '' \<and>
   UserModel_updateBlog w [] blogId s =
     (executeQuery w (db_log s) ''UPDATE blogs SET '' (ParamList [blogId]),
      s\<lparr>db_log := db_log s @ [(''UPDATE blogs SET '', ParamList [blogId])]\<rparr>)"
  by (simp add: UserModel_updateBlog_def Database_executeQuery_def updateBlog_query_def
      object_keys_def)

text \<open>
  Every column assignment of the field object is part of the statement text, whatever
  the name of the field.
\<close>

lemma concat_map_contains:
  "x \<in> set xs \<Longrightarrow> \<exists>ps ss. concat (map f xs) = ps @ f x @ ss"
proof -
  assume "x \<in> set xs"
  then obtain ys zs where "xs = ys @ x # zs"
    by (auto simp: in_set_conv_decomp)
  then have "concat (map f xs) = concat (map f ys) @ f x @ concat (map f zs)"
    by simp
  then show ?thesis by blast
qed

lemma updateBlog_query_contains_every_entry:
  assumes "(key, value) \<in> set targetObj"
  shows "\<exists>ps ss. updateBlog_query other targetObj = ps @ assignment_text other key value @ ss"
proof -
  from assms have ne: "targetObj \<noteq> []" by auto
  let ?f = "\<lambda>(key, value). assignment_text other key value @ '', ''"
  have closed: "updateBlog_query other targetObj =
      ''UPDATE blogs SET '' @ concat (map ?f (butlast targetObj))
        @ (case last targetObj of (key, value) \<Rightarrow> assignment_text other key value) @ '' WHERE id = ?''"
    using ne by (simp add: updateBlog_query_def object_keys_def updateBlog_forEach_closed)
  show ?thesis
  proof (cases "(key, value) = last targetObj")
    case True
    then have "updateBlog_query other targetObj =
        (''UPDATE blogs SET '' @ concat (map ?f (butlast targetObj)))
          @ assignment_text other key value @ '' WHERE id = ?''"
      using closed by (simp add: True [symmetric])
    then show ?thesis by blast
  next
    case False
    with assms ne have "(key, value) \<in> set (butlast targetObj)"
      by (metis append_butlast_last_id set_ConsD set_append Un_iff list.set(1) empty_iff
          list.simps(15) insert_iff)
    from concat_map_contains [OF this, of ?f]
    obtain ps ss where "concat (map ?f (butlast targetObj)) = ps @ ?f (key, value) @ ss"
      by blast
    then have "updateBlog_query other targetObj =
        (''UPDATE blogs SET '' @ ps) @ assignment_text other key value
          @ ('', '' @ ss @ (case last targetObj of (key, value) \<Rightarrow> assignment_text other key value)
               @ '' WHERE id = ?'')"
      using closed by simp
    then show ?thesis by blast
  qed
qed

section \<open>Objects\<close>

lemma map_fst_overwrite:
  "map fst (map (\<lambda>(k', v'). if k' = k then (k', v) else (k', v')) targetObj) = map fst targetObj"
  by (induction targetObj) auto

lemma map_of_overwrite_same:
  "k \<in> fst ` set targetObj \<Longrightarrow>
   map_of (map (\<lambda>(k', v'). if k' = k then (k', v) else (k', v')) targetObj) k = Some v"
  by (induction targetObj) auto

lemma map_of_overwrite_other:
  "k' \<noteq> k \<Longrightarrow>
   map_of (map (\<lambda>(k', v'). if k' = k then (k', v) else (k', v')) targetObj) k' = map_of targetObj k'"
  by (induction targetObj) auto

lemma get_prop_set_prop_same: "get_prop (set_prop targetObj k v) k = v"
proof (cases "k \<in> fst ` set targetObj")
  case True
  then show ?thesis
    by (simp add: get_prop_def set_prop_def object_keys_def map_of_overwrite_same)
next
  case False
  then have "map_of targetObj k = None"
    by (simp add: map_of_eq_None_iff)
  with False show ?thesis
    by (simp add: get_prop_def set_prop_def object_keys_def map_add_def)
qed

lemma get_prop_set_prop_other:
  "k' \<noteq> k \<Longrightarrow> get_prop (set_prop targetObj k v) k' = get_prop targetObj k'"
  by (simp add: get_prop_def set_prop_def object_keys_def map_of_overwrite_other map_add_def
      split: option.splits)

lemma object_keys_set_prop:
  "set (object_keys (set_prop targetObj k v)) = insert k (set (object_keys targetObj))"
proof (cases "k \<in> fst ` set targetObj")
  case True
  then show ?thesis
    using map_fst_overwrite [of k v targetObj]
    by (auto simp: set_prop_def object_keys_def)
next
  case False
  then show ?thesis
    by (simp add: set_prop_def object_keys_def)
qed

section \<open>Responses of the handlers\<close>

lemma length_sendResponse [simp]:
  "length (responses (sendResponse code msg dat err s)) = Suc (length (responses s))"
  by (simp add: sendResponse_def)

lemma length_catch_block [simp]:
  "length (responses (catch_block c error s)) = Suc (length (responses s))"
  by (simp add: catch_block_def)

lemma responses_Database_executeQuery [simp]:
  "responses (snd (Database_executeQuery w query params s)) = responses s"
  by (simp add: Database_executeQuery_def)

lemma responses_getBlogById [simp]:
  "responses (snd (UserModel_getBlogById w blogId s)) = responses s"
  by (simp add: UserModel_getBlogById_def Database_executeQuery_def split: sum.splits)

lemma responses_sendResponse:
  "responses (sendResponse code msg dat err s) =
     responses s @ [\<lparr>statusCode = code, message = msg, payload = dat, errorDetail = err\<rparr>]"
  by (simp add: sendResponse_def)

lemma sendResponse_inject:
  "sendResponse code msg dat err s = sendResponse code' msg' dat' err' s' \<Longrightarrow>
   code = code' \<and> msg = msg' \<and> dat = dat' \<and> err = err'"
proof -
  assume "sendResponse code msg dat err s = sendResponse code' msg' dat' err' s'"
  then have "responses (sendResponse code msg dat err s) =
      responses (sendResponse code' msg' dat' err' s')"
    by simp
  then show ?thesis
    by (simp add: sendResponse_def)
qed

lemma sendResponse_neq_catch_block:
  "sendResponse code msg None err s \<noteq> catch_block c error s'"
  unfolding catch_block_def
  by (rule notI, drule sendResponse_inject, simp)

lemma UserModel_getBlogById_eq:
  "UserModel_getBlogById w blogId s =
     (case executeQuery w (db_log s) ''SELECT * FROM blogs WHERE id = ?'' (ParamList [blogId]) of
        Inl error \<Rightarrow> Inl error
      | Inr result \<Rightarrow> Inr (result_index0 result),
      s\<lparr>db_log := db_log s @ [(''SELECT * FROM blogs WHERE id = ?'', ParamList [blogId])]\<rparr>)"
  by (simp add: UserModel_getBlogById_def Database_executeQuery_def Let_def split: sum.splits)


lemma one_createBlog: "length (responses (createBlog c w req rs s)) = Suc (length (responses s))"
  by (simp add: createBlog_def UserModel_createBlog_def Database_executeQuery_def Let_def split: sum.splits)








text \<open>With body and identity present the handler returns, with one response.\<close>

lemma createBlog_entry_wellformed:
  "raw_body req = Some requestBody \<Longrightarrow> raw_locals_user rs = Some user \<Longrightarrow>
   \<exists>s'. createBlog_entry c w req rs s = Returned s' \<and>
        length (responses s') = Suc (length (responses s))"
  by (simp add: createBlog_entry_def one_createBlog)

section \<open>Creating a blog\<close>

text \<open>
  C4. A create-blog request whose body has \<open>title\<close> and \<open>description\<close> (the required
  fields being among title, description and userId) hands the driver an insert whose
  \<open>userId\<close> is the caller's authenticated id, whatever \<open>userId\<close> the body carried; when
  the insert resolves with a generated id, the single response is the created outcome
  with the payload \<open>{id, title, description, userId}\<close>, \<open>userId\<close> again the caller's.
\<close>

theorem C4_createBlog_owner_is_caller:
  assumes "set (blogCreationRequiredFields c) \<subseteq> {''title'', ''description'', ''userId''}"
    and "''title'' \<in> set (object_keys (body req))"
    and "''description'' \<in> set (object_keys (body req))"
    and "executeQuery w (db_log s) ''INSERT INTO blogs SET ?''
           (ParamObj [(''userId'', locals_user_id rs),
                      (''title'', get_prop (body req) ''title''),
                      (''description'', get_prop (body req) ''description'')])
         = Inr (Packet newId rows)"
  shows "createBlog c w req rs s =
     s\<lparr>responses := responses s @
          [\<lparr>statusCode = SUCCESSFULLY_CREATED c, message = ''Blog created successfully'',
            payload = Some (DataObj [(''id'', JNum (int newId)),
                                     (''title'', get_prop (body req) ''title''),
                                     (''description'', get_prop (body req) ''description''),
                                     (''userId'', locals_user_id rs)]),
            errorDetail = None\<rparr>],
       db_log := db_log s @
          [(''INSERT INTO blogs SET ?'',
            ParamObj [(''userId'', locals_user_id rs),
                      (''title'', get_prop (body req) ''title''),
                      (''description'', get_prop (body req) ''description'')])]\<rparr>"
proof -
  from assms(1-3) have "isAvailable (set_prop (body req) ''userId'' (locals_user_id rs))
      (blogCreationRequiredFields c) True"
    by (auto simp: isAvailable_def object_keys_set_prop list_all_iff)
  with assms(4) show ?thesis
    by (simp add: createBlog_def UserModel_createBlog_def Database_executeQuery_def
        sendResponse_def Let_def get_prop_set_prop_same get_prop_set_prop_other)
qed

theorem C4_createBlog_owner_is_caller_witness:
  "createBlog sample_constants (sample_world (Packet 9 1))
     \<lparr>body = [(''title'', JStr ''T''), (''description'', JStr ''D''), (''userId'', JNum 99)],
      params_id = JUndefined\<rparr>
     \<lparr>locals_user_id = JNum 7\<rparr> init =
   \<lparr>responses = [\<lparr>statusCode = 201, message = ''Blog created successfully'',
                   payload = Some (DataObj [(''id'', JNum 9), (''title'', JStr ''T''),
                                            (''description'', JStr ''D''), (''userId'', JNum 7)]),
                   errorDetail = None\<rparr>],
    db_log = [(''INSERT INTO blogs SET ?'',
               ParamObj [(''userId'', JNum 7), (''title'', JStr ''T''),
                         (''description'', JStr ''D'')])]\<rparr>"
proof -
  let ?req = "\<lparr>body = [(''title'', JStr ''T''), (''description'', JStr ''D''),
                        (''userId'', JNum 99)], params_id = JUndefined\<rparr>"
  let ?rs = "\<lparr>locals_user_id = JNum 7\<rparr>"
  have required: "set (blogCreationRequiredFields sample_constants)
      \<subseteq> {''title'', ''description'', ''userId''}"
    by (simp add: sample_constants_def)
  have title: "''title'' \<in> set (object_keys (body ?req))"
    by (simp add: object_keys_def)
  have description: "''description'' \<in> set (object_keys (body ?req))"
    by (simp add: object_keys_def)
  have inserted: "executeQuery (sample_world (Packet 9 1)) (db_log init) ''INSERT INTO blogs SET ?''
           (ParamObj [(''userId'', locals_user_id ?rs),
                      (''title'', get_prop (body ?req) ''title''),
                      (''description'', get_prop (body ?req) ''description'')])
         = Inr (Packet 9 1)"
    by (simp add: sample_world_def)
  show ?thesis
    using C4_createBlog_owner_is_caller [OF required title description inserted]
    by (simp add: init_def sample_constants_def get_prop_def)
qed

text \<open>
  C5. A create-blog request whose body lacks a required field (any but \<open>userId\<close>, which
  the handler sets itself) gets the bad-request response and no statement reaches the
  driver.
\<close>

theorem C5_createBlog_missing_field:
  assumes "field \<in> set (blogCreationRequiredFields c)"
    and "field \<noteq> ''userId''"
    and "field \<notin> set (object_keys (body req))"
  shows "createBlog c w req rs s =
     s\<lparr>responses := responses s @
          [\<lparr>statusCode = BAD_REQUEST c, message = ''Some fields are missing'',
            payload = None, errorDetail = None\<rparr>]\<rparr>
     \<and> db_log (createBlog c w req rs s) = db_log s"
proof -
  from assms have "\<not> isAvailable (set_prop (body req) ''userId'' (locals_user_id rs))
      (blogCreationRequiredFields c) True"
    by (auto simp: isAvailable_def object_keys_set_prop list_all_iff)
  then show ?thesis
    by (simp add: createBlog_def sendResponse_def Let_def)
qed

theorem C5_createBlog_missing_field_witness:
  "createBlog sample_constants (sample_world (Packet 9 1))
     \<lparr>body = [(''title'', JStr ''T'')], params_id = JUndefined\<rparr>
     \<lparr>locals_user_id = JNum 7\<rparr> init =
   \<lparr>responses = [\<lparr>statusCode = 400, message = ''Some fields are missing'',
                   payload = None, errorDetail = None\<rparr>],
    db_log = []\<rparr>"
proof -
  let ?req = "\<lparr>body = [(''title'', JStr ''T'')], params_id = JUndefined\<rparr>"
  have required: "''description'' \<in> set (blogCreationRequiredFields sample_constants)"
    by (simp add: sample_constants_def)
  have other: "''description'' \<noteq> ''userId''"
    by simp
  have missing: "''description'' \<notin> set (object_keys (body ?req))"
    by (simp add: object_keys_def)
  show ?thesis
    using C5_createBlog_missing_field [OF required other missing, of "sample_world (Packet 9 1)"
        "\<lparr>locals_user_id = JNum 7\<rparr>" init]
    by (simp add: init_def sample_constants_def)
qed

section \<open>Fetching a blog or a user\<close>

text \<open>
  C7. When the blog or the user looked up is absent, the response carries the status
  code \<open>STATUS_CODES.OK\<close>, the code a successful fetch carries, with a message that says
  so, no payload and no error detail.
\<close>

theorem C7_absent_reported_with_OK:
  "(executeQuery w (db_log s) ''SELECT * FROM blogs WHERE id = ?'' (ParamList [params_id req])
      = Inr (Rows [])
    \<longrightarrow> responses (getBlogById c w req rs s) =
          responses s @
            [\<lparr>statusCode = OK c,
              message = ''Blog with id '' @ to_string (ToString w) (params_id req) @ '' not found'',
              payload = None, errorDetail = None\<rparr>])
   \<and>
   (executeQuery w (db_log s) ''SELECT * FROM blogs WHERE id = ?'' (ParamList [params_id req])
      = Inr (Rows (blog # others))
    \<longrightarrow> responses (getBlogById c w req rs s) =
          responses s @
            [\<lparr>statusCode = OK c,
              message = ''Blog with id '' @ to_string (ToString w) (params_id req) @ '' fetched successfully'',
              payload = Some (DataObj blog), errorDetail = None\<rparr>])
   \<and>
   (findUserByAttribute w ''id'' (params_id req) = Inr None
    \<longrightarrow> responses (getUserById c w req rs s) =
          responses s @
            [\<lparr>statusCode = OK c,
              message = ''User with id '' @ to_string (ToString w) (params_id req) @ '' does not exist'',
              payload = None, errorDetail = None\<rparr>])
   \<and>
   (findUserByAttribute w ''id'' (params_id req) = Inr (Some user) \<and>
    get_prop user ''id'' = locals_user_id rs
    \<longrightarrow> responses (getUserById c w req rs s) =
          responses s @
            [\<lparr>statusCode = OK c,
              message = ''User with id '' @ to_string (ToString w) (params_id req) @ '' fetched successfully'',
              payload = Some (DataObj [(''id'', get_prop user ''id''),
                                       (''username'', get_prop user ''username'')]),
              errorDetail = None\<rparr>])"
  by (simp add: getBlogById_def getUserById_def UserModel_getBlogById_eq responses_sendResponse
      Let_def)

theorem C7_absent_reported_with_OK_witness:
  "responses (getBlogById sample_constants empty_world
      \<lparr>body = [], params_id = JStr ''41''\<rparr> \<lparr>locals_user_id = JNum 7\<rparr> init) =
     [\<lparr>statusCode = 200, message = ''Blog with id 41 not found'',
       payload = None, errorDetail = None\<rparr>] \<and>
   responses (getUserById sample_constants empty_world
      \<lparr>body = [], params_id = JStr ''41''\<rparr> \<lparr>locals_user_id = JNum 7\<rparr> init) =
     [\<lparr>statusCode = 200, message = ''User with id 41 does not exist'',
       payload = None, errorDetail = None\<rparr>] \<and>
   responses (getBlogById sample_constants (sample_world (Packet 0 0))
      \<lparr>body = [], params_id = JStr ''5''\<rparr> \<lparr>locals_user_id = JNum 7\<rparr> init) =
     [\<lparr>statusCode = 200, message = ''Blog with id 5 fetched successfully'',
       payload = Some (DataObj blog5), errorDetail = None\<rparr>] \<and>
   responses (getUserById sample_constants (sample_world (Packet 0 0))
      \<lparr>body = [], params_id = JStr ''7''\<rparr> \<lparr>locals_user_id = JNum 7\<rparr> init) =
     [\<lparr>statusCode = 200, message = ''User with id 7 fetched successfully'',
       payload = Some (DataObj [(''id'', JNum 7), (''username'', JStr ''ann'')]),
       errorDetail = None\<rparr>]"
  using C7_absent_reported_with_OK
    [of empty_world init "\<lparr>body = [], params_id = JStr ''41''\<rparr>" sample_constants
        "\<lparr>locals_user_id = JNum 7\<rparr>" blog5 "[]" user7]
    C7_absent_reported_with_OK
    [of "sample_world (Packet 0 0)" init "\<lparr>body = [], params_id = JStr ''5''\<rparr>"
        sample_constants "\<lparr>locals_user_id = JNum 7\<rparr>" blog5 "[]" user7]
    C7_absent_reported_with_OK
    [of "sample_world (Packet 0 0)" init "\<lparr>body = [], params_id = JStr ''7''\<rparr>"
        sample_constants "\<lparr>locals_user_id = JNum 7\<rparr>" blog5 "[]" user7]
  by (simp add: init_def sample_constants_def sample_world_def empty_world_def get_prop_def
      user7_def)

section \<open>Updating and deleting a blog\<close>

text \<open>
  The path of a request that passes the presence check, finds the blog and is made by
  its owner: the mutating statement is issued and its result decides the response.
\<close>

lemma updateBlog_authorized:
  assumes "isAvailable (body req) (possibleBlogUpdateFields c) False"
    and "executeQuery w (db_log s) ''SELECT * FROM blogs WHERE id = ?''
           (ParamList [params_id req]) = Inr (Rows (blog # others))"
    and "get_prop blog ''userId'' = locals_user_id rs"
  shows "updateBlog c w req rs s =
     (case executeQuery w
             (db_log s @ [(''SELECT * FROM blogs WHERE id = ?'', ParamList [params_id req])])
             (updateBlog_query (ToString w) (body req)) (ParamList [params_id req]) of
        Inl error \<Rightarrow>
          catch_block c error
            (s\<lparr>db_log := db_log s @
                 [(''SELECT * FROM blogs WHERE id = ?'', ParamList [params_id req]),
                  (updateBlog_query (ToString w) (body req), ParamList [params_id req])]\<rparr>)
      | Inr result \<Rightarrow>
          sendResponse (if truthy (affectedRows result) then OK c else BAD_REQUEST c)
            (''Blog with id '' @ to_string (ToString w) (params_id req) @
               (if truthy (affectedRows result) then '' updated successfully''
                else '' could not be updated''))
            None None
            (s\<lparr>db_log := db_log s @
                 [(''SELECT * FROM blogs WHERE id = ?'', ParamList [params_id req]),
                  (updateBlog_query (ToString w) (body req), ParamList [params_id req])]\<rparr>))"
  using assms
  by (simp add: updateBlog_def UserModel_getBlogById_eq UserModel_updateBlog_def
      Database_executeQuery_def Let_def split: sum.splits)

lemma deleteBlog_authorized:
  assumes "executeQuery w (db_log s) ''SELECT * FROM blogs WHERE id = ?''
           (ParamList [params_id req]) = Inr (Rows (blog # others))"
    and "get_prop blog ''userId'' = locals_user_id rs"
  shows "deleteBlog c w req rs s =
     (case executeQuery w
             (db_log s @ [(''SELECT * FROM blogs WHERE id = ?'', ParamList [params_id req])])
             ''DELETE FROM blogs WHERE id = ?'' (ParamList [params_id req]) of
        Inl error \<Rightarrow>
          catch_block c error
            (s\<lparr>db_log := db_log s @
                 [(''SELECT * FROM blogs WHERE id = ?'', ParamList [params_id req]),
                  (''DELETE FROM blogs WHERE id = ?'', ParamList [params_id req])]\<rparr>)
      | Inr result \<Rightarrow>
          sendResponse (if truthy (affectedRows result) then OK c else BAD_REQUEST c)
            (''Blog with id '' @ to_string (ToString w) (params_id req) @
               (if truthy (affectedRows result) then '' deleted successfully''
                else '' could not be deleted''))
            None None
            (s\<lparr>db_log := db_log s @
                 [(''SELECT * FROM blogs WHERE id = ?'', ParamList [params_id req]),
                  (''DELETE FROM blogs WHERE id = ?'', ParamList [params_id req])]\<rparr>))"
  using assms
  by (simp add: deleteBlog_def UserModel_getBlogById_eq UserModel_deleteBlog_def
      Database_executeQuery_def Let_def split: sum.splits)

text \<open>
  C3. An update-blog request that finds the blog with an owner other than the caller
  gets the unauthorized response, and the only statement issued is the select that
  fetched the blog: no update reaches the driver.
\<close>

theorem C3_updateBlog_unauthorized:
  assumes "isAvailable (body req) (possibleBlogUpdateFields c) False"
    and "executeQuery w (db_log s) ''SELECT * FROM blogs WHERE id = ?''
           (ParamList [params_id req]) = Inr (Rows (blog # others))"
    and "get_prop blog ''userId'' \<noteq> locals_user_id rs"
  shows "updateBlog c w req rs s =
     s\<lparr>responses := responses s @
          [\<lparr>statusCode = UNAUTHORIZED c, message = ''You are not authorized'',
            payload = None, errorDetail = None\<rparr>],
       db_log := db_log s @
          [(''SELECT * FROM blogs WHERE id = ?'', ParamList [params_id req])]\<rparr>"
  using assms
  by (simp add: updateBlog_def UserModel_getBlogById_eq sendResponse_def Let_def)

theorem C3_updateBlog_unauthorized_witness:
  "updateBlog sample_constants (sample_world (Packet 0 1))
     \<lparr>body = [(''title'', JStr ''New'')], params_id = JStr ''5''\<rparr>
     \<lparr>locals_user_id = JNum 8\<rparr> init =
   \<lparr>responses = [\<lparr>statusCode = 401, message = ''You are not authorized'',
                   payload = None, errorDetail = None\<rparr>],
    db_log = [(''SELECT * FROM blogs WHERE id = ?'', ParamList [JStr ''5''])]\<rparr>"
proof -
  let ?req = "\<lparr>body = [(''title'', JStr ''New'')], params_id = JStr ''5''\<rparr>"
  let ?rs = "\<lparr>locals_user_id = JNum 8\<rparr>"
  have present: "isAvailable (body ?req) (possibleBlogUpdateFields sample_constants) False"
    by (simp add: isAvailable_def sample_constants_def object_keys_def)
  have fetched: "executeQuery (sample_world (Packet 0 1)) (db_log init)
      ''SELECT * FROM blogs WHERE id = ?'' (ParamList [params_id ?req]) = Inr (Rows (blog5 # []))"
    by (simp add: sample_world_def)
  have other: "get_prop blog5 ''userId'' \<noteq> locals_user_id ?rs"
    by (simp add: get_prop_def blog5_def)
  show ?thesis
    using C3_updateBlog_unauthorized [OF present fetched other]
    by (simp add: init_def sample_constants_def)
qed

text \<open>
  C6. For an update-blog or delete-blog request of the owner, a result packet with zero
  affected rows gives the bad-request response \<open>could not be updated\<close> (or \<open>deleted\<close>).
  The final state is neither one the success response leads to nor one the catch block
  leads to, for any thrown error.
\<close>

theorem C6_zero_rows_distinct_failure:
  "(isAvailable (body req) (possibleBlogUpdateFields c) False \<and>
    executeQuery w (db_log s) ''SELECT * FROM blogs WHERE id = ?'' (ParamList [params_id req])
      = Inr (Rows (blog # others)) \<and>
    get_prop blog ''userId'' = locals_user_id rs \<and>
    executeQuery w
      (db_log s @ [(''SELECT * FROM blogs WHERE id = ?'', ParamList [params_id req])])
      (updateBlog_query (ToString w) (body req)) (ParamList [params_id req]) = Inr (Packet i 0)
    \<longrightarrow>
      responses (updateBlog c w req rs s) =
        responses s @
          [\<lparr>statusCode = BAD_REQUEST c,
            message = ''Blog with id '' @ to_string (ToString w) (params_id req) @ '' could not be updated'',
            payload = None, errorDetail = None\<rparr>] \<and>
      (\<forall>s'. updateBlog c w req rs s \<noteq>
         sendResponse (OK c)
           (''Blog with id '' @ to_string (ToString w) (params_id req) @ '' updated successfully'')
           None None s') \<and>
      (\<forall>error s'. updateBlog c w req rs s \<noteq> catch_block c error s'))
   \<and>
   (executeQuery w (db_log s) ''SELECT * FROM blogs WHERE id = ?'' (ParamList [params_id req])
      = Inr (Rows (blog # others)) \<and>
    get_prop blog ''userId'' = locals_user_id rs \<and>
    executeQuery w
      (db_log s @ [(''SELECT * FROM blogs WHERE id = ?'', ParamList [params_id req])])
      ''DELETE FROM blogs WHERE id = ?'' (ParamList [params_id req]) = Inr (Packet i 0)
    \<longrightarrow>
      responses (deleteBlog c w req rs s) =
        responses s @
          [\<lparr>statusCode = BAD_REQUEST c,
            message = ''Blog with id '' @ to_string (ToString w) (params_id req) @ '' could not be deleted'',
            payload = None, errorDetail = None\<rparr>] \<and>
      (\<forall>s'. deleteBlog c w req rs s \<noteq>
         sendResponse (OK c)
           (''Blog with id '' @ to_string (ToString w) (params_id req) @ '' deleted successfully'')
           None None s') \<and>
      (\<forall>error s'. deleteBlog c w req rs s \<noteq> catch_block c error s'))"
proof (intro conjI impI allI)
  assume h: "isAvailable (body req) (possibleBlogUpdateFields c) False \<and>
    executeQuery w (db_log s) ''SELECT * FROM blogs WHERE id = ?'' (ParamList [params_id req])
      = Inr (Rows (blog # others)) \<and>
    get_prop blog ''userId'' = locals_user_id rs \<and>
    executeQuery w
      (db_log s @ [(''SELECT * FROM blogs WHERE id = ?'', ParamList [params_id req])])
      (updateBlog_query (ToString w) (body req)) (ParamList [params_id req]) = Inr (Packet i 0)"
  then have run: "updateBlog c w req rs s =
      sendResponse (BAD_REQUEST c)
        (''Blog with id '' @ to_string (ToString w) (params_id req) @ '' could not be updated'') None None
        (s\<lparr>db_log := db_log s @
             [(''SELECT * FROM blogs WHERE id = ?'', ParamList [params_id req]),
              (updateBlog_query (ToString w) (body req), ParamList [params_id req])]\<rparr>)"
    by (simp add: updateBlog_authorized [of req c w s blog others rs])
  show "responses (updateBlog c w req rs s) =
        responses s @
          [\<lparr>statusCode = BAD_REQUEST c,
            message = ''Blog with id '' @ to_string (ToString w) (params_id req) @ '' could not be updated'',
            payload = None, errorDetail = None\<rparr>]"
    by (simp add: run responses_sendResponse)
  show "updateBlog c w req rs s \<noteq>
         sendResponse (OK c)
           (''Blog with id '' @ to_string (ToString w) (params_id req) @ '' updated successfully'')
           None None s'" for s'
    unfolding run by (rule notI, drule sendResponse_inject, simp)
  show "updateBlog c w req rs s \<noteq> catch_block c error s'" for error s'
    unfolding run by (rule sendResponse_neq_catch_block)
next
  assume h: "executeQuery w (db_log s) ''SELECT * FROM blogs WHERE id = ?'' (ParamList [params_id req])
      = Inr (Rows (blog # others)) \<and>
    get_prop blog ''userId'' = locals_user_id rs \<and>
    executeQuery w
      (db_log s @ [(''SELECT * FROM blogs WHERE id = ?'', ParamList [params_id req])])
      ''DELETE FROM blogs WHERE id = ?'' (ParamList [params_id req]) = Inr (Packet i 0)"
  then have run: "deleteBlog c w req rs s =
      sendResponse (BAD_REQUEST c)
        (''Blog with id '' @ to_string (ToString w) (params_id req) @ '' could not be deleted'') None None
        (s\<lparr>db_log := db_log s @
             [(''SELECT * FROM blogs WHERE id = ?'', ParamList [params_id req]),
              (''DELETE FROM blogs WHERE id = ?'', ParamList [params_id req])]\<rparr>)"
    by (simp add: deleteBlog_authorized [of w s req blog others rs c])
  show "responses (deleteBlog c w req rs s) =
        responses s @
          [\<lparr>statusCode = BAD_REQUEST c,
            message = ''Blog with id '' @ to_string (ToString w) (params_id req) @ '' could not be deleted'',
            payload = None, errorDetail = None\<rparr>]"
    by (simp add: run responses_sendResponse)
  show "deleteBlog c w req rs s \<noteq>
         sendResponse (OK c)
           (''Blog with id '' @ to_string (ToString w) (params_id req) @ '' deleted successfully'')
           None None s'" for s'
    unfolding run by (rule notI, drule sendResponse_inject, simp)
  show "deleteBlog c w req rs s \<noteq> catch_block c error s'" for error s'
    unfolding run by (rule sendResponse_neq_catch_block)
qed

theorem C6_zero_rows_distinct_failure_witness:
  "responses (updateBlog sample_constants (sample_world (Packet 0 0))
      \<lparr>body = [(''title'', JStr ''Old'')], params_id = JStr ''5''\<rparr>
      \<lparr>locals_user_id = JNum 7\<rparr> init) =
     [\<lparr>statusCode = 400, message = ''Blog with id 5 could not be updated'',
       payload = None, errorDetail = None\<rparr>] \<and>
   responses (deleteBlog sample_constants (sample_world (Packet 0 0))
      \<lparr>body = [(''title'', JStr ''Old'')], params_id = JStr ''5''\<rparr>
      \<lparr>locals_user_id = JNum 7\<rparr> init) =
     [\<lparr>statusCode = 400, message = ''Blog with id 5 could not be deleted'',
       payload = None, errorDetail = None\<rparr>]"
  using C6_zero_rows_distinct_failure
    [of "\<lparr>body = [(''title'', JStr ''Old'')], params_id = JStr ''5''\<rparr>" sample_constants
        "sample_world (Packet 0 0)" init blog5 "[]" "\<lparr>locals_user_id = JNum 7\<rparr>" 0]
  by (simp add: init_def sample_constants_def sample_world_def isAvailable_def object_keys_def
      get_prop_def blog5_def updateBlog_query_def)

text \<open>
  The owner's update forwards the whole request body to the data-access layer: the
  statement issued is built from every entry of the body.
\<close>

lemma updateBlog_forwards_whole_body:
  assumes "isAvailable (body req) (possibleBlogUpdateFields c) False"
    and "executeQuery w (db_log s) ''SELECT * FROM blogs WHERE id = ?''
           (ParamList [params_id req]) = Inr (Rows (blog # others))"
    and "get_prop blog ''userId'' = locals_user_id rs"
  shows "db_log (updateBlog c w req rs s) =
     db_log s @ [(''SELECT * FROM blogs WHERE id = ?'', ParamList [params_id req]),
                 (updateBlog_query (ToString w) (body req), ParamList [params_id req])]"
  by (simp add: updateBlog_authorized [OF assms] sendResponse_def catch_block_def
      split: sum.splits)

text \<open>
  C1. Update-blog writes fields outside the allow-list. With the allow-list \<open>title\<close>,
  \<open>description\<close>, the request of user 7 for the own blog 5 with the body
  \<open>{title: 'T', userId: 8}\<close> passes the presence check, and the update statement handed
  to the driver assigns \<open>userId\<close> as well as \<open>title\<close>.
\<close>

theorem C1_updateBlog_writes_unlisted_field:
  "''userId'' \<notin> set (possibleBlogUpdateFields sample_constants) \<and>
   updateBlog sample_constants (sample_world (Packet 0 1))
     \<lparr>body = [(''title'', JStr ''T''), (''userId'', JNum 8)], params_id = JStr ''5''\<rparr>
     \<lparr>locals_user_id = JNum 7\<rparr> init =
   \<lparr>responses = [\<lparr>statusCode = 200, message = ''Blog with id 5 updated successfully'',
                   payload = None, errorDetail = None\<rparr>],
    db_log = [(''SELECT * FROM blogs WHERE id = ?'', ParamList [JStr ''5'']),
              (''UPDATE blogs SET title = 'T', userId = '8' WHERE id = ?'',
               ParamList [JStr ''5''])]\<rparr>"
  by (simp add: updateBlog_def UserModel_getBlogById_eq UserModel_updateBlog_def
      Database_executeQuery_def sendResponse_def Let_def init_def sample_constants_def
      sample_world_def isAvailable_def object_keys_def get_prop_def blog5_def updateBlog_query_def
      string_of_int_def string_of_nat.simps digit_char_def)

section \<open>Updating a user\<close>

text \<open>
  A request that passes the presence check, finds the user and is made by that user
  reaches the call of \<open>UserModel.updateUser\<close>, which throws: the response is the one of
  the catch block.
\<close>

lemma updateUser_authorized_throws:
  assumes "isAvailable (body req) (userUpdateFields c) False"
    and "findUserByAttribute w ''id'' (params_id req) = Inr (Some user)"
    and "get_prop user ''id'' = locals_user_id rs"
  shows "updateUser c w req rs s =
     catch_block c (TypeError ''UserModel.updateUser is not a function'') s"
  using assms
  by (simp add: updateUser_def UserModel_updateUser_def Let_def)

text \<open>
  C2. Update-user never reaches the write. User 7 updating the own username passes the
  presence check, the lookup and the identity check, and gets the internal-error response
  carrying the TypeError of the missing method; no statement reaches the driver and
  success is not reported.
\<close>

theorem C2_updateUser_never_writes:
  "updateUser sample_constants (sample_world (Packet 0 1))
     \<lparr>body = [(''username'', JStr ''bob'')], params_id = JStr ''7''\<rparr>
     \<lparr>locals_user_id = JNum 7\<rparr> init =
   \<lparr>responses = [\<lparr>statusCode = 500, message = ''UserModel.updateUser is not a function'',
                   payload = Some DataEmptyArray,
                   errorDetail = Some (ErrObject (TypeError ''UserModel.updateUser is not a function''))\<rparr>],
    db_log = []\<rparr>"
  by (simp add: updateUser_def UserModel_updateUser_def catch_block_def TypeError_def
      sendResponse_def Let_def init_def sample_constants_def
      sample_world_def isAvailable_def object_keys_def get_prop_def user7_def)

end
